theory Spec2Isabelle
  imports Main
begin

section \<open>Data model of core/registry/bootstrap.go\<close>

text \<open>
  A Go \<^verbatim>\<open>map[string]string\<close> is a reference that may be nil: \<open>None\<close> is the nil map,
  \<open>Some m\<close> an allocated one. Map-valued fields that the code always allocates itself
  (the two \<^verbatim>\<open>Metadata\<close> fields) are plain maps.
\<close>

type_synonym gomap = "(string \<rightharpoonup> string) option"

text \<open>
  Errors. \<^verbatim>\<open>errEmptyServiceIDFromRegistry\<close> is the package's own, unexported error value;
  every other error the two functions return is the one an external call handed back,
  passed on unchanged.
\<close>

type_synonym ext_error = string

datatype error =
    errEmptyServiceIDFromRegistry
  | Propagated ext_error

text \<open>The registry-side descriptors.\<close>

record ServicePath =
  sp_Path :: string
  sp_Property :: gomap

record Framework =
  fw_Version :: string
  fw_Name :: string

record MicroService =
  ms_ServiceID :: string
  ms_AppID :: string
  ms_ServiceName :: string
  ms_Version :: string
  ms_Paths :: "ServicePath list"
  ms_Environment :: string
  ms_Status :: string
  ms_Level :: string
  ms_Schemas :: "string list"
  ms_Framework :: "Framework option"
  ms_RegisterBy :: string
  ms_Metadata :: "string \<rightharpoonup> string"
  ms_Alias :: string

record DataCenterInfo =
  dci_Name :: string
  dci_Region :: string
  dci_AvailableZone :: string

record MicroServiceInstance =
  msi_ServiceID :: string
  msi_EndpointsMap :: gomap
  msi_HostName :: string
  msi_Status :: string
  msi_Metadata :: "string \<rightharpoonup> string"
  msi_DataCenterInfo :: "DataCenterInfo option"

text \<open>\<^verbatim>\<open>&MicroServiceDependency{}\<close>: the zero-valued dependency record.\<close>

datatype MicroServiceDependency = ZeroMicroServiceDependency

text \<open>
  The configuration the two functions read: \<^verbatim>\<open>config.MicroserviceDefinition.ServiceDescription\<close>
  and the data-center part of \<^verbatim>\<open>config.GlobalDefinition\<close>.
\<close>

record ServicePathStruct =
  cfg_Path :: string
  cfg_Property :: gomap

record ServiceDescription =
  sd_Name :: string
  sd_Version :: string
  sd_Environment :: string
  sd_Level :: string
  sd_Properties :: gomap
  sd_ServicePaths :: "ServicePathStruct list"
  sd_InstanceProperties :: gomap

record DataCenter =
  dc_Name :: string
  dc_AvailableZone :: string

text \<open>What \<^verbatim>\<open>metadata.NewFramework()\<close> returns.\<close>

record FrameworkMeta =
  fm_Name :: string
  fm_Version :: string
  fm_Register :: string

text \<open>
  The calls made on \<^verbatim>\<open>DefaultRegistrator\<close>, in the order they are made. The descriptor
  recorded is the one handed to the call.
\<close>

datatype call =
    RegisterService MicroService
  | AddSchemas string string string
  | RegisterServiceInstance string MicroServiceInstance
  | UpdateMicroServiceInstanceProperties string string "string \<rightharpoonup> string"

text \<open>
  A value stored in \<^verbatim>\<open>SelfInstancesCache\<close> is an \<^verbatim>\<open>interface{}\<close>: either a
  \<^verbatim>\<open>[]string\<close> or something else, on which the type assertion
  \<^verbatim>\<open>value.([]string)\<close> yields the nil slice. A slice is modelled by the list of its
  elements; that two stored slices may share a backing array is not modelled.
\<close>

datatype cache_value = StringSlice "string list" | OtherValue

text \<open>
  The package-level state of the process. \<^verbatim>\<open>config.MicroserviceDefinition\<close> is a pointer,
  so the writes to \<^verbatim>\<open>service.ServiceDescription\<close> are writes to the configuration.
  The constants \<^verbatim>\<open>common.DefaultLevel\<close>, \<^verbatim>\<open>common.DefaultStatus\<close> and
  \<^verbatim>\<open>runtime.StatusRunning\<close> are declared outside this file and are carried as fields that
  no function writes. \<^verbatim>\<open>'p\<close> is the type of \<^verbatim>\<open>config.GlobalDefinition.Cse.Protocols\<close>.
  Entries of \<^verbatim>\<open>SelfInstancesCache\<close> are stored with expiration 0 and are modelled as
  never expiring.
\<close>

record 'p globals =
  runtime_ServiceID :: string
  runtime_InstanceID :: string
  runtime_InstanceStatus :: string
  runtime_App :: string
  runtime_HostName :: string
  runtime_StatusRunning :: string
  common_DefaultLevel :: string
  common_DefaultStatus :: string
  config_ServiceDescription :: ServiceDescription
  config_Protocols :: 'p
  config_DataCenter :: DataCenter
  config_NodeIP :: string
  schema_DefaultSchemaIDsMap :: "string \<rightharpoonup> string"
  microServiceDependencies :: "MicroServiceDependency option"
  InstanceEndpoints :: gomap
  SelfInstancesCache :: "string \<rightharpoonup> cache_value"
  registrator_calls :: "call list"

text \<open>
  What the external collaborators answer during one run. Each is called at most once per
  run, except \<^verbatim>\<open>AddSchemas\<close>, whose result the code discards. A Go result pair
  \<^verbatim>\<open>(v, err)\<close> is \<open>Inl err\<close> when \<^verbatim>\<open>err != nil\<close> (the code then ignores \<^verbatim>\<open>v\<close>) and
  \<open>Inr v\<close> otherwise. The Registrator is taken not to write to the descriptor it is handed.
\<close>

record 'p env =
  GetSchemaIDs :: "string \<Rightarrow> ext_error + string list"
  NewFramework :: FrameworkMeta
  GetRegistratorScope :: string
  reg_RegisterService :: "MicroService \<Rightarrow> ext_error + string"
  GetMicroServiceID :: "string \<Rightarrow> string \<Rightarrow> string \<Rightarrow> string \<Rightarrow> ext_error + string"
  MakeEndpointMap :: "'p \<Rightarrow> ext_error + gomap"
  reg_RegisterServiceInstance :: "string \<Rightarrow> MicroServiceInstance \<Rightarrow> ext_error + string"
  reg_UpdateMicroServiceInstanceProperties ::
    "string \<Rightarrow> string \<Rightarrow> (string \<rightharpoonup> string) \<Rightarrow> ext_error option"

text \<open>
  Modelled from the spec: the constants \<^verbatim>\<open>common.ScopeFull\<close>, \<^verbatim>\<open>common.TRUE\<close> and
  \<^verbatim>\<open>common.FALSE\<close> are declared outside this file; the spec gives their values as
  "full", "true" and "false".
\<close>

definition ScopeFull :: string where
  "ScopeFull = ''full''"

definition TRUE :: string where
  "TRUE = ''true''"

definition FALSE :: string where
  "FALSE = ''false''"

section \<open>RegisterMicroservice\<close>

text \<open>Indexing a Go map: an absent key reads as the empty string.\<close>

definition index_map :: "(string \<rightharpoonup> string) \<Rightarrow> string \<Rightarrow> string" where
  "index_map m k = (case m k of None \<Rightarrow> [] | Some v \<Rightarrow> v)"

text \<open>
  The loop \<^verbatim>\<open>for _, schemaID := range schemas\<close> of lines 100-103: one \<^verbatim>\<open>AddSchemas\<close>
  call per schema identifier, its result discarded.
\<close>

fun add_schemas_loop :: "string \<Rightarrow> string list \<Rightarrow> 'p globals \<Rightarrow> 'p globals" where
  "add_schemas_loop sid [] g = g"
| "add_schemas_loop sid (schemaID # rest) g =
     (let schemaInfo = index_map (schema_DefaultSchemaIDsMap g) schemaID
      in add_schemas_loop sid rest
           (g\<lparr>registrator_calls := registrator_calls g @ [AddSchemas sid schemaID schemaInfo]\<rparr>))"

text \<open>
  The loop of lines 46-51 copies every configured path into a registry
  \<^verbatim>\<open>ServicePath\<close>.
\<close>

fun copy_paths :: "ServicePathStruct list \<Rightarrow> ServicePath list \<Rightarrow> ServicePath list" where
  "copy_paths [] regpaths = regpaths"
| "copy_paths (svcPath # rest) regpaths =
     copy_paths rest (regpaths @ [\<lparr>sp_Path = cfg_Path svcPath, sp_Property = cfg_Property svcPath\<rparr>])"

text \<open>
  Lines 36-41: the defaults written into the configured description. After them
  \<^verbatim>\<open>Properties\<close> is never nil.
\<close>

definition apply_defaults :: "'p globals \<Rightarrow> ServiceDescription \<Rightarrow> ServiceDescription" where
  "apply_defaults g service =
    (let service = (if sd_Level service = [] then service\<lparr>sd_Level := common_DefaultLevel g\<rparr>
                    else service);
         service = (if sd_Properties service = None then service\<lparr>sd_Properties := Some Map.empty\<rparr>
                    else service)
     in service)"

text \<open>
  Lines 44-77: the descriptor. The alias is set to the empty string in the literal and
  computed right after, under the test \<^verbatim>\<open>len(microservice.Alias) == 0\<close>.
\<close>

definition new_microservice ::
  "'p globals \<Rightarrow> ServiceDescription \<Rightarrow> string list \<Rightarrow> FrameworkMeta \<Rightarrow> MicroService" where
  "new_microservice g service schemas framework =
    (let regpaths = copy_paths (sd_ServicePaths service) [];
         microservice = \<lparr>
           ms_ServiceID = runtime_ServiceID g,
           ms_AppID = runtime_App g,
           ms_ServiceName = sd_Name service,
           ms_Version = sd_Version service,
           ms_Paths = regpaths,
           ms_Environment = sd_Environment service,
           ms_Status = common_DefaultStatus g,
           ms_Level = sd_Level service,
           ms_Schemas = schemas,
           ms_Framework = Some \<lparr>fw_Version = fm_Version framework, fw_Name = fm_Name framework\<rparr>,
           ms_RegisterBy = fm_Register framework,
           ms_Metadata = Map.empty,
           ms_Alias = []\<rparr>
     in if length (ms_Alias microservice) = 0
        then microservice\<lparr>ms_Alias := ms_AppID microservice @ '':'' @ ms_ServiceName microservice\<rparr>
        else microservice)"

text \<open>
  Lines 78-83: the scope test. Writing to \<^verbatim>\<open>Properties\<close> cannot hit a nil map here,
  since \<open>apply_defaults\<close> ran before; the nil case of the model is the empty map.
\<close>

definition apply_scope ::
  "string \<Rightarrow> MicroService \<Rightarrow> ServiceDescription \<Rightarrow> MicroService \<times> ServiceDescription" where
  "apply_scope scope microservice service =
    (let properties = (case sd_Properties service of None \<Rightarrow> Map.empty | Some m \<Rightarrow> m)
     in if scope = ScopeFull
        then (microservice\<lparr>ms_Metadata := (ms_Metadata microservice)(''allowCrossApp'' \<mapsto> TRUE)\<rparr>,
              service\<lparr>sd_Properties := Some (properties(''allowCrossApp'' \<mapsto> TRUE))\<rparr>)
        else (microservice,
              service\<lparr>sd_Properties := Some (properties(''allowCrossApp'' \<mapsto> FALSE))\<rparr>))"

text \<open>
  Logging is left out: it never changes control flow or state. The run returns the Go
  \<^verbatim>\<open>error\<close> (\<open>None\<close> is nil) and the state it leaves.
\<close>

definition RegisterMicroservice :: "'p env \<Rightarrow> 'p globals \<Rightarrow> error option \<times> 'p globals" where
  "RegisterMicroservice e g0 =
    (let g1 = g0\<lparr>microServiceDependencies := Some ZeroMicroServiceDependency\<rparr>;
         service = config_ServiceDescription g1;
         schemas = (case GetSchemaIDs e (sd_Name service) of
                      Inl err \<Rightarrow> []
                    | Inr ids \<Rightarrow> ids);
         service = apply_defaults g1 service;
         framework = NewFramework e;
         microservice = new_microservice g1 service schemas framework;
         (microservice, service) = apply_scope (GetRegistratorScope e) microservice service;
         g2 = g1\<lparr>config_ServiceDescription := service,
                 registrator_calls := registrator_calls g1 @ [RegisterService microservice]\<rparr>
     in case reg_RegisterService e microservice of
          Inl err \<Rightarrow> (Some (Propagated err), g2)
        | Inr sid \<Rightarrow>
            if sid = [] then (Some errEmptyServiceIDFromRegistry, g2)
            else (None, add_schemas_loop sid schemas (g2\<lparr>runtime_ServiceID := sid\<rparr>)))"

section \<open>RegisterMicroserviceInstances\<close>

text \<open>
  Lines 164-169: the scan that sets \<^verbatim>\<open>isRepeat\<close>. It does not stop at the first match.
\<close>

fun scan_repeat :: "string list \<Rightarrow> string \<Rightarrow> bool \<Rightarrow> bool" where
  "scan_repeat [] instanceID isRepeat = isRepeat"
| "scan_repeat (va # rest) instanceID isRepeat =
     scan_repeat rest instanceID (if va = instanceID then True else isRepeat)"

text \<open>
  Lines 162-173. The list is read under \<^verbatim>\<open>microServiceInstance.ServiceID\<close>, the key
  \<open>key\<close>, and written under \<^verbatim>\<open>sid\<close>. \<^verbatim>\<open>Get\<close> on an absent key gives a nil interface,
  and the type assertion gives the nil slice for it and for any value that is not a
  \<^verbatim>\<open>[]string\<close>.
\<close>

definition update_self_instances ::
  "string \<Rightarrow> string \<Rightarrow> string \<Rightarrow> (string \<rightharpoonup> cache_value) \<Rightarrow> (string \<rightharpoonup> cache_value)" where
  "update_self_instances key sid instanceID cache =
    (let value = cache key;
         instanceIDs = (case value of Some (StringSlice ids) \<Rightarrow> ids | _ \<Rightarrow> []);
         isRepeat = scan_repeat instanceIDs instanceID False;
         instanceIDs = (if \<not> isRepeat then instanceIDs @ [instanceID] else instanceIDs)
     in cache(sid \<mapsto> StringSlice instanceIDs))"

text \<open>
  Lines 131-144: the instance descriptor. \<^verbatim>\<open>ServiceID\<close> is not among the fields the
  literal sets and is not assigned later, so it holds the empty string.
\<close>

definition new_microServiceInstance :: "'p globals \<Rightarrow> gomap \<Rightarrow> MicroServiceInstance" where
  "new_microServiceInstance g eps =
    (let microServiceInstance = \<lparr>
           msi_ServiceID = [],
           msi_EndpointsMap = eps,
           msi_HostName = runtime_HostName g,
           msi_Status = common_DefaultStatus g,
           msi_Metadata = [''nodeIP'' \<mapsto> config_NodeIP g],
           msi_DataCenterInfo = None\<rparr>
     in if dc_Name (config_DataCenter g) \<noteq> [] \<and> dc_AvailableZone (config_DataCenter g) \<noteq> []
        then microServiceInstance\<lparr>msi_DataCenterInfo := Some \<lparr>
               dci_Name = dc_Name (config_DataCenter g),
               dci_Region = dc_Name (config_DataCenter g),
               dci_AvailableZone = dc_AvailableZone (config_DataCenter g)\<rparr>\<rparr>
        else microServiceInstance)"

text \<open>
  Lines 154-160: the property update, made only when \<^verbatim>\<open>InstanceProperties\<close> is not nil.
  It returns the error of the update, if any, and the state with the call recorded.
\<close>

definition push_instance_properties ::
  "'p env \<Rightarrow> string \<Rightarrow> string \<Rightarrow> gomap \<Rightarrow> 'p globals \<Rightarrow> ext_error option \<times> 'p globals" where
  "push_instance_properties e sid instanceID properties g =
    (case properties of
       None \<Rightarrow> (None, g)
     | Some props \<Rightarrow>
         (reg_UpdateMicroServiceInstanceProperties e sid instanceID props,
          g\<lparr>registrator_calls := registrator_calls g
               @ [UpdateMicroServiceInstanceProperties sid instanceID props]\<rparr>))"

definition RegisterMicroserviceInstances ::
  "'p env \<Rightarrow> 'p globals \<Rightarrow> error option \<times> 'p globals" where
  "RegisterMicroserviceInstances e g =
    (let service = config_ServiceDescription g
     in case GetMicroServiceID e (runtime_App g) (sd_Name service) (sd_Version service)
               (sd_Environment service) of
          Inl err \<Rightarrow> (Some (Propagated err), g)
        | Inr sid \<Rightarrow>
           (case MakeEndpointMap e (config_Protocols g) of
              Inl err \<Rightarrow> (Some (Propagated err), g)
            | Inr eps0 \<Rightarrow>
               (let eps = (if InstanceEndpoints g \<noteq> None then InstanceEndpoints g else eps0);
                    microServiceInstance = new_microServiceInstance g eps;
                    g1 = g\<lparr>registrator_calls := registrator_calls g
                             @ [RegisterServiceInstance sid microServiceInstance]\<rparr>
                in case reg_RegisterServiceInstance e sid microServiceInstance of
                     Inl err \<Rightarrow> (Some (Propagated err), g1)
                   | Inr instanceID \<Rightarrow>
                      (let g2 = g1\<lparr>runtime_InstanceID := instanceID,
                                   runtime_InstanceStatus := runtime_StatusRunning g1\<rparr>
                       in case push_instance_properties e sid instanceID
                                 (sd_InstanceProperties service) g2 of
                            (Some err, g3) \<Rightarrow> (Some (Propagated err), g3)
                          | (None, g3) \<Rightarrow>
                              (None, g3\<lparr>SelfInstancesCache :=
                                 update_self_instances (msi_ServiceID microServiceInstance) sid
                                   instanceID (SelfInstancesCache g3)\<rparr>)))))"

section \<open>Observing a run\<close>

text \<open>The Registrator calls a run added to the record of calls.\<close>

definition calls_of_run :: "'p globals \<Rightarrow> 'p globals \<Rightarrow> call list" where
  "calls_of_run g g' = drop (length (registrator_calls g)) (registrator_calls g')"

text \<open>The service descriptors handed to \<^verbatim>\<open>RegisterService\<close> among a list of calls.\<close>

fun services_submitted :: "call list \<Rightarrow> MicroService list" where
  "services_submitted [] = []"
| "services_submitted (RegisterService d # cs) = d # services_submitted cs"
| "services_submitted (AddSchemas sid schemaID schemaInfo # cs) = services_submitted cs"
| "services_submitted (RegisterServiceInstance sid d # cs) = services_submitted cs"
| "services_submitted (UpdateMicroServiceInstanceProperties sid iid props # cs) =
     services_submitted cs"

text \<open>The arguments of the \<^verbatim>\<open>AddSchemas\<close> calls among a list of calls.\<close>

fun schemas_added :: "call list \<Rightarrow> (string \<times> string \<times> string) list" where
  "schemas_added [] = []"
| "schemas_added (RegisterService d # cs) = schemas_added cs"
| "schemas_added (AddSchemas sid schemaID schemaInfo # cs) =
     (sid, schemaID, schemaInfo) # schemas_added cs"
| "schemas_added (RegisterServiceInstance sid d # cs) = schemas_added cs"
| "schemas_added (UpdateMicroServiceInstanceProperties sid iid props # cs) = schemas_added cs"

text \<open>The instance descriptors handed to \<^verbatim>\<open>RegisterServiceInstance\<close>.\<close>

fun instances_submitted :: "call list \<Rightarrow> MicroServiceInstance list" where
  "instances_submitted [] = []"
| "instances_submitted (RegisterService d # cs) = instances_submitted cs"
| "instances_submitted (AddSchemas sid schemaID schemaInfo # cs) = instances_submitted cs"
| "instances_submitted (RegisterServiceInstance sid d # cs) = d # instances_submitted cs"
| "instances_submitted (UpdateMicroServiceInstanceProperties sid iid props # cs) =
     instances_submitted cs"

text \<open>Looking a key up in a possibly nil map: nil has no entries.\<close>

definition lookup_gomap :: "gomap \<Rightarrow> string \<Rightarrow> string option" where
  "lookup_gomap m k = (case m of None \<Rightarrow> None | Some f \<Rightarrow> f k)"

text \<open>
  The instance-ID list a cache holds for a key, as the type assertion of line 163 reads
  it: empty when the key is absent or holds something else.
\<close>

definition self_instances :: "(string \<rightharpoonup> cache_value) \<Rightarrow> string \<Rightarrow> string list" where
  "self_instances cache k = (case cache k of Some (StringSlice ids) \<Rightarrow> ids | _ \<Rightarrow> [])"

section \<open>A concrete process\<close>

text \<open>
  One configuration and one set of answers of the collaborators, on which the theorems
  below are instantiated. The protocols are given by name.
\<close>

definition demo_description :: ServiceDescription where
  "demo_description = \<lparr>
     sd_Name = ''svcA'',
     sd_Version = ''1.0'',
     sd_Environment = [],
     sd_Level = [],
     sd_Properties = None,
     sd_ServicePaths = [\<lparr>cfg_Path = ''/a'', cfg_Property = None\<rparr>],
     sd_InstanceProperties = None\<rparr>"

definition demo_globals :: "string list globals" where
  "demo_globals = \<lparr>
     runtime_ServiceID = [],
     runtime_InstanceID = [],
     runtime_InstanceStatus = [],
     runtime_App = ''app1'',
     runtime_HostName = ''host1'',
     runtime_StatusRunning = ''UP'',
     common_DefaultLevel = ''BACK'',
     common_DefaultStatus = ''UP'',
     config_ServiceDescription = demo_description,
     config_Protocols = [''rest''],
     config_DataCenter = \<lparr>dc_Name = ''dc1'', dc_AvailableZone = ''az1''\<rparr>,
     config_NodeIP = ''10.0.0.1'',
     schema_DefaultSchemaIDsMap = [''hello'' \<mapsto> ''swagger''],
     microServiceDependencies = None,
     InstanceEndpoints = None,
     SelfInstancesCache = Map.empty,
     registrator_calls = []\<rparr>"

definition demo_env :: "string list env" where
  "demo_env = \<lparr>
     GetSchemaIDs = (\<lambda>name. Inr [''hello'']),
     NewFramework = \<lparr>fm_Name = ''Go-Chassis'', fm_Version = ''1'', fm_Register = ''SDK''\<rparr>,
     GetRegistratorScope = ''full'',
     reg_RegisterService = (\<lambda>d. Inr ''sid-1''),
     GetMicroServiceID = (\<lambda>app name version environment. Inr ''sid-1''),
     MakeEndpointMap = (\<lambda>protocols. Inr (Some [''rest'' \<mapsto> ''127.0.0.1:8080''])),
     reg_RegisterServiceInstance = (\<lambda>sid d. Inr ''inst-1''),
     reg_UpdateMicroServiceInstanceProperties = (\<lambda>sid iid props. None)\<rparr>"

text \<open>
  A process that registered nothing before, with one instance property and a Registrator
  whose property update fails.
\<close>

definition demo_globals_with_properties :: "string list globals" where
  "demo_globals_with_properties =
     demo_globals\<lparr>config_ServiceDescription :=
       demo_description\<lparr>sd_InstanceProperties := Some [''zone'' \<mapsto> ''a'']\<rparr>\<rparr>"

definition demo_env_update_fails :: "string list env" where
  "demo_env_update_fails =
     demo_env\<lparr>reg_UpdateMicroServiceInstanceProperties := \<lambda>sid iid props. Some ''update failed''\<rparr>"

text \<open>A Registrator that answers with a second instance ID.\<close>

definition demo_env_second_id :: "string list env" where
  "demo_env_second_id = demo_env\<lparr>reg_RegisterServiceInstance := \<lambda>sid d. Inr ''inst-2''\<rparr>"

section \<open>Auxiliary facts\<close>

lemma services_submitted_append:
  "services_submitted (xs @ ys) = services_submitted xs @ services_submitted ys"
  by (induction xs rule: services_submitted.induct) simp_all

lemma schemas_added_append:
  "schemas_added (xs @ ys) = schemas_added xs @ schemas_added ys"
  by (induction xs rule: schemas_added.induct) simp_all

lemma instances_submitted_append:
  "instances_submitted (xs @ ys) = instances_submitted xs @ instances_submitted ys"
  by (induction xs rule: instances_submitted.induct) simp_all

lemma scan_repeat_iff: "scan_repeat ids i b = (b \<or> i \<in> set ids)"
  by (induction ids arbitrary: b) auto

lemma add_schemas_loop_calls:
  "registrator_calls (add_schemas_loop sid ss g) =
     registrator_calls g @ map (\<lambda>s. AddSchemas sid s (index_map (schema_DefaultSchemaIDsMap g) s)) ss"
  by (induction ss arbitrary: g) (simp_all add: Let_def)

lemma add_schemas_loop_ServiceID:
  "runtime_ServiceID (add_schemas_loop sid ss g) = runtime_ServiceID g"
  by (induction ss arbitrary: g) (simp_all add: Let_def)

lemma add_schemas_loop_ServiceDescription:
  "config_ServiceDescription (add_schemas_loop sid ss g) = config_ServiceDescription g"
  by (induction ss arbitrary: g) (simp_all add: Let_def)

lemma services_submitted_AddSchemas:
  "services_submitted (map (\<lambda>s. AddSchemas sid s (f s)) ss) = []"
  by (induction ss) simp_all

lemma schemas_added_AddSchemas:
  "schemas_added (map (\<lambda>s. AddSchemas sid s (f s)) ss) = map (\<lambda>s. (sid, s, f s)) ss"
  by (induction ss) simp_all

lemma new_microservice_Alias:
  "ms_Alias (new_microservice g service schemas framework) = runtime_App g @ '':'' @ sd_Name service"
  by (simp add: Let_def new_microservice_def)

lemma new_microservice_Metadata:
  "ms_Metadata (new_microservice g service schemas framework) = Map.empty"
  by (simp add: Let_def new_microservice_def)

lemma new_microservice_Schemas:
  "ms_Schemas (new_microservice g service schemas framework) = schemas"
  by (simp add: Let_def new_microservice_def)

lemma apply_defaults_Name: "sd_Name (apply_defaults g service) = sd_Name service"
  by (simp add: Let_def apply_defaults_def)

lemma apply_scope_Alias: "ms_Alias (fst (apply_scope scope m service)) = ms_Alias m"
  by (simp add: Let_def apply_scope_def)

lemma apply_scope_Schemas: "ms_Schemas (fst (apply_scope scope m service)) = ms_Schemas m"
  by (simp add: Let_def apply_scope_def)

lemma apply_scope_Metadata:
  "ms_Metadata (fst (apply_scope scope m service)) ''allowCrossApp'' =
     (if scope = ''full'' then Some ''true'' else ms_Metadata m ''allowCrossApp'')"
  by (simp add: Let_def apply_scope_def ScopeFull_def TRUE_def)

lemma apply_scope_Properties:
  "lookup_gomap (sd_Properties (snd (apply_scope scope m service))) ''allowCrossApp'' =
     Some (if scope = ''full'' then ''true'' else ''false'')"
  by (simp add: Let_def apply_scope_def lookup_gomap_def ScopeFull_def TRUE_def FALSE_def)

lemmas run_simps = calls_of_run_def Let_def services_submitted_append schemas_added_append
  instances_submitted_append add_schemas_loop_calls add_schemas_loop_ServiceID
  add_schemas_loop_ServiceDescription services_submitted_AddSchemas schemas_added_AddSchemas

lemmas descriptor_simps = new_microservice_Alias new_microservice_Metadata
  new_microservice_Schemas apply_defaults_Name apply_scope_Alias apply_scope_Schemas
  apply_scope_Metadata apply_scope_Properties

lemma new_microServiceInstance_EndpointsMap:
  "msi_EndpointsMap (new_microServiceInstance g eps) = eps"
  by (simp add: Let_def new_microServiceInstance_def)

lemma new_microServiceInstance_ServiceID:
  "msi_ServiceID (new_microServiceInstance g eps) = []"
  by (simp add: Let_def new_microServiceInstance_def)

lemma new_microServiceInstance_DataCenterInfo:
  "msi_DataCenterInfo (new_microServiceInstance g eps) =
     (if dc_Name (config_DataCenter g) \<noteq> [] \<and> dc_AvailableZone (config_DataCenter g) \<noteq> []
      then Some \<lparr>dci_Name = dc_Name (config_DataCenter g),
                 dci_Region = dc_Name (config_DataCenter g),
                 dci_AvailableZone = dc_AvailableZone (config_DataCenter g)\<rparr>
      else None)"
  by (simp add: Let_def new_microServiceInstance_def)

lemma push_instance_properties_calls:
  "registrator_calls (snd (push_instance_properties e sid i properties g)) =
     registrator_calls g @
       (case properties of None \<Rightarrow> []
        | Some props \<Rightarrow> [UpdateMicroServiceInstanceProperties sid i props])"
  by (simp add: push_instance_properties_def split: option.splits)

lemma push_instance_properties_fst:
  "fst (push_instance_properties e sid i properties g) =
     (case properties of None \<Rightarrow> None
      | Some props \<Rightarrow> reg_UpdateMicroServiceInstanceProperties e sid i props)"
  by (simp add: push_instance_properties_def split: option.splits)

lemma push_instance_properties_keeps:
  "SelfInstancesCache (snd (push_instance_properties e sid i properties g)) = SelfInstancesCache g"
  "runtime_InstanceID (snd (push_instance_properties e sid i properties g)) = runtime_InstanceID g"
  "runtime_InstanceStatus (snd (push_instance_properties e sid i properties g)) =
     runtime_InstanceStatus g"
  by (simp_all add: push_instance_properties_def split: option.splits)

lemma update_self_instances_eq:
  "update_self_instances key sid i cache =
     cache(sid \<mapsto> StringSlice (if i \<in> set (self_instances cache key)
                                  then self_instances cache key
                                  else self_instances cache key @ [i]))"
  by (auto simp add: update_self_instances_def self_instances_def Let_def scan_repeat_iff
      split: option.splits cache_value.splits)

lemma instances_submitted_option:
  "instances_submitted (case properties of None \<Rightarrow> []
     | Some props \<Rightarrow> [UpdateMicroServiceInstanceProperties sid i props]) = []"
  by (simp split: option.splits)

lemmas instance_simps = new_microServiceInstance_EndpointsMap new_microServiceInstance_ServiceID
  new_microServiceInstance_DataCenterInfo push_instance_properties_calls
  push_instance_properties_fst push_instance_properties_keeps instances_submitted_option

lemma instances_submitted_run:
  "instances_submitted (calls_of_run g (snd (RegisterMicroserviceInstances e g))) =
     (case GetMicroServiceID e (runtime_App g) (sd_Name (config_ServiceDescription g))
             (sd_Version (config_ServiceDescription g))
             (sd_Environment (config_ServiceDescription g)) of
        Inl err \<Rightarrow> []
      | Inr sid \<Rightarrow>
          (case MakeEndpointMap e (config_Protocols g) of
             Inl err \<Rightarrow> []
           | Inr eps0 \<Rightarrow>
               [new_microServiceInstance g
                  (if InstanceEndpoints g \<noteq> None then InstanceEndpoints g else eps0)]))"
  by (simp add: RegisterMicroserviceInstances_def run_simps instance_simps case_prod_beta
      split: sum.splits option.splits prod.splits)

lemma run_success_cache:
  assumes "RegisterMicroserviceInstances e g = (None, g')"
    and "GetMicroServiceID e (runtime_App g) (sd_Name (config_ServiceDescription g))
           (sd_Version (config_ServiceDescription g))
           (sd_Environment (config_ServiceDescription g)) = Inr sid"
    and "\<forall>d \<in> set (instances_submitted (calls_of_run g g')).
           reg_RegisterServiceInstance e sid d = Inr i"
  shows "SelfInstancesCache g' = update_self_instances [] sid i (SelfInstancesCache g)"
proof -
  from assms(1) have g': "g' = snd (RegisterMicroserviceInstances e g)" by simp
  obtain eps0 where eps: "MakeEndpointMap e (config_Protocols g) = Inr eps0"
    using assms(1,2)
    by (cases "MakeEndpointMap e (config_Protocols g)")
       (simp_all add: RegisterMicroserviceInstances_def Let_def)
  let ?d = "new_microServiceInstance g
              (if InstanceEndpoints g \<noteq> None then InstanceEndpoints g else eps0)"
  have "reg_RegisterServiceInstance e sid ?d = Inr i"
    using assms(2,3) eps unfolding g' by (simp add: instances_submitted_run)
  then show ?thesis
    using assms(1,2) eps
    by (auto simp add: RegisterMicroserviceInstances_def Let_def instance_simps case_prod_beta
        split: prod.splits option.splits)
qed

lemma count_list_distinct:
  "distinct xs \<Longrightarrow> count_list xs x = (if x \<in> set xs then 1 else 0)"
  by (induction xs) auto

lemma self_instances_update:
  "self_instances (update_self_instances key sid i cache) k =
     (if k = sid
      then (if i \<in> set (self_instances cache key) then self_instances cache key
            else self_instances cache key @ [i])
      else self_instances cache k)"
  by (simp add: update_self_instances_eq self_instances_def)

lemma update_self_instances_twice:
  "update_self_instances key sid i (update_self_instances key sid i cache) sid =
     update_self_instances key sid i cache sid"
  by (simp add: update_self_instances_eq self_instances_def)

lemma update_self_instances_count:
  assumes "distinct (self_instances cache key)"
  shows "count_list (self_instances (update_self_instances key sid i cache) sid) i = 1"
  using assms by (simp add: self_instances_update count_list_distinct)

lemma self_instances_distinct:
  assumes "\<And>k ids. cache k = Some (StringSlice ids) \<Longrightarrow> distinct ids"
  shows "distinct (self_instances cache key)"
  using assms by (auto simp add: self_instances_def split: option.splits cache_value.splits)

lemma update_self_instances_distinct:
  assumes "\<And>k ids. cache k = Some (StringSlice ids) \<Longrightarrow> distinct ids"
    and "update_self_instances key sid i cache k = Some (StringSlice ids)"
  shows "distinct ids"
proof (cases "k = sid")
  case True
  with assms(2) self_instances_distinct [OF assms(1), where key = key] show ?thesis
    by (auto simp add: update_self_instances_eq split: if_splits)
next
  case False
  with assms show ?thesis by (simp add: update_self_instances_eq)
qed

lemma run_keeps_configuration:
  "config_ServiceDescription (snd (RegisterMicroserviceInstances e g)) = config_ServiceDescription g"
  "runtime_App (snd (RegisterMicroserviceInstances e g)) = runtime_App g"
  by (simp_all add: RegisterMicroserviceInstances_def Let_def case_prod_beta
        push_instance_properties_def split: sum.splits option.splits)

lemma run_cache_cases:
  "SelfInstancesCache (snd (RegisterMicroserviceInstances e g)) = SelfInstancesCache g
   \<or> (\<exists>sid i. SelfInstancesCache (snd (RegisterMicroserviceInstances e g)) =
          update_self_instances [] sid i (SelfInstancesCache g))"
proof (cases "GetMicroServiceID e (runtime_App g) (sd_Name (config_ServiceDescription g))
                (sd_Version (config_ServiceDescription g))
                (sd_Environment (config_ServiceDescription g))")
  case (Inl err)
  then show ?thesis
    by (simp add: RegisterMicroserviceInstances_def Let_def)
next
  case sid: (Inr sid)
  show ?thesis
  proof (cases "MakeEndpointMap e (config_Protocols g)")
    case (Inl err)
    with sid show ?thesis
      by (simp add: RegisterMicroserviceInstances_def Let_def)
  next
    case eps: (Inr eps0)
    let ?d = "new_microServiceInstance g
                (if InstanceEndpoints g \<noteq> None then InstanceEndpoints g else eps0)"
    show ?thesis
    proof (cases "reg_RegisterServiceInstance e sid ?d")
      case (Inl err)
      with sid eps show ?thesis
        by (simp add: RegisterMicroserviceInstances_def Let_def)
    next
      case iid: (Inr i)
      have "SelfInstancesCache (snd (RegisterMicroserviceInstances e g)) = SelfInstancesCache g
          \<or> SelfInstancesCache (snd (RegisterMicroserviceInstances e g)) =
              update_self_instances [] sid i (SelfInstancesCache g)"
        using sid eps iid
        by (simp add: RegisterMicroserviceInstances_def Let_def instance_simps case_prod_beta
            split: option.splits)
      then show ?thesis by blast
    qed
  qed
qed

text \<open>
  No list of the cache has a duplicate: this holds of the empty cache and every run of
  \<^verbatim>\<open>RegisterMicroserviceInstances\<close> keeps it.
\<close>

lemma no_duplicates_preserved:
  assumes "\<And>k ids. SelfInstancesCache g k = Some (StringSlice ids) \<Longrightarrow> distinct ids"
    and "SelfInstancesCache (snd (RegisterMicroserviceInstances e g)) k = Some (StringSlice ids)"
  shows "distinct ids"
proof -
  from run_cache_cases [of e g] show ?thesis
  proof
    assume "SelfInstancesCache (snd (RegisterMicroserviceInstances e g)) = SelfInstancesCache g"
    with assms show ?thesis by simp
  next
    assume "\<exists>sid i. SelfInstancesCache (snd (RegisterMicroserviceInstances e g)) =
          update_self_instances [] sid i (SelfInstancesCache g)"
    then obtain sid i where "SelfInstancesCache (snd (RegisterMicroserviceInstances e g)) =
          update_self_instances [] sid i (SelfInstancesCache g)"
      by blast
    with assms(2) have "update_self_instances [] sid i (SelfInstancesCache g) k = Some (StringSlice ids)"
      by simp
    with assms(1) show ?thesis
      by (rule update_self_instances_distinct)
  qed
qed

lemmas demo_defs = demo_globals_def demo_env_def demo_description_def
  demo_globals_with_properties_def demo_env_update_fails_def demo_env_second_id_def

section \<open>Service registration\<close>

text \<open>
  C5. The descriptor that \<^verbatim>\<open>RegisterMicroservice\<close> submits has as alias the application
  ID, a colon and the service name. The code never takes an alias from the configuration,
  so this holds for every configured description: each run submits exactly one
  descriptor, with this alias.
\<close>

theorem alias_default:
  "map ms_Alias (services_submitted (calls_of_run g (snd (RegisterMicroservice e g))))
     = [runtime_App g @ '':'' @ sd_Name (config_ServiceDescription g)]"
  by (simp add: RegisterMicroservice_def run_simps descriptor_simps case_prod_beta
      split: sum.splits)

text \<open>The example of the spec: application "app1" and service "svcA".\<close>

theorem alias_default_witness:
  "map ms_Alias (services_submitted (calls_of_run demo_globals
      (snd (RegisterMicroservice demo_env demo_globals)))) = [''app1:svcA'']"
  using alias_default [of demo_globals demo_env] by (simp add: demo_defs)

text \<open>
  C3, as the code has it. Under scope "full" the submitted descriptor's metadata and the
  configured properties both map \<^verbatim>\<open>allowCrossApp\<close> to "true". Under any other scope the
  configured properties map it to "false" and the descriptor's metadata has no entry for
  it.
\<close>

theorem allowCrossApp_policy:
  "map (\<lambda>d. ms_Metadata d ''allowCrossApp'')
       (services_submitted (calls_of_run g (snd (RegisterMicroservice e g))))
     = [if GetRegistratorScope e = ''full'' then Some ''true'' else None]
   \<and> lookup_gomap (sd_Properties (config_ServiceDescription (snd (RegisterMicroservice e g))))
        ''allowCrossApp''
     = Some (if GetRegistratorScope e = ''full'' then ''true'' else ''false'')"
  by (simp add: RegisterMicroservice_def run_simps descriptor_simps case_prod_beta
      split: sum.splits)

theorem allowCrossApp_policy_witness:
  "map (\<lambda>d. ms_Metadata d ''allowCrossApp'')
       (services_submitted (calls_of_run demo_globals
          (snd (RegisterMicroservice demo_env demo_globals))))
     = [Some ''true'']
   \<and> lookup_gomap (sd_Properties (config_ServiceDescription
          (snd (RegisterMicroservice demo_env demo_globals)))) ''allowCrossApp''
     = Some ''true''"
  using allowCrossApp_policy [of demo_globals demo_env] by (simp add: demo_defs)

text \<open>
  C3 as the spec states it fails: with scope "app" the metadata of the submitted
  descriptor does not map \<^verbatim>\<open>allowCrossApp\<close> to "false"; it has no such key.
\<close>

theorem allowCrossApp_false_counterexample:
  "GetRegistratorScope (demo_env\<lparr>GetRegistratorScope := ''app''\<rparr>) \<noteq> ''full''
   \<and> map (\<lambda>d. ms_Metadata d ''allowCrossApp'')
        (services_submitted (calls_of_run demo_globals
           (snd (RegisterMicroservice (demo_env\<lparr>GetRegistratorScope := ''app''\<rparr>) demo_globals))))
      = [None]
   \<and> map (\<lambda>d. ms_Metadata d ''allowCrossApp'')
        (services_submitted (calls_of_run demo_globals
           (snd (RegisterMicroservice (demo_env\<lparr>GetRegistratorScope := ''app''\<rparr>) demo_globals))))
      \<noteq> [Some ''false'']"
  by (simp add: RegisterMicroservice_def run_simps descriptor_simps demo_defs case_prod_beta
      split: sum.splits)

text \<open>
  C4. When the Registrator answers the submitted descriptor \<open>d\<close> with success and the
  empty identifier, \<^verbatim>\<open>RegisterMicroservice\<close> returns
  \<^verbatim>\<open>errEmptyServiceIDFromRegistry\<close>, the runtime service ID keeps its value, and the
  service registration is the only Registrator call of the run: no schema is added.
\<close>

theorem empty_service_id:
  assumes "services_submitted (calls_of_run g (snd (RegisterMicroservice e g))) = [d]"
    and "reg_RegisterService e d = Inr []"
  shows "fst (RegisterMicroservice e g) = Some errEmptyServiceIDFromRegistry
       \<and> runtime_ServiceID (snd (RegisterMicroservice e g)) = runtime_ServiceID g
       \<and> calls_of_run g (snd (RegisterMicroservice e g)) = [RegisterService d]
       \<and> schemas_added (calls_of_run g (snd (RegisterMicroservice e g))) = []"
  using assms
  by (simp add: RegisterMicroservice_def run_simps case_prod_beta split: sum.splits if_splits)

theorem empty_service_id_witness:
  "\<exists>d. services_submitted (calls_of_run (demo_globals\<lparr>runtime_ServiceID := ''old''\<rparr>)
          (snd (RegisterMicroservice (demo_env\<lparr>reg_RegisterService := \<lambda>d. Inr []\<rparr>)
             (demo_globals\<lparr>runtime_ServiceID := ''old''\<rparr>)))) = [d]
     \<and> reg_RegisterService (demo_env\<lparr>reg_RegisterService := \<lambda>d. Inr []\<rparr>) d = Inr []
     \<and> fst (RegisterMicroservice (demo_env\<lparr>reg_RegisterService := \<lambda>d. Inr []\<rparr>)
          (demo_globals\<lparr>runtime_ServiceID := ''old''\<rparr>)) = Some errEmptyServiceIDFromRegistry
     \<and> runtime_ServiceID (snd (RegisterMicroservice (demo_env\<lparr>reg_RegisterService := \<lambda>d. Inr []\<rparr>)
          (demo_globals\<lparr>runtime_ServiceID := ''old''\<rparr>))) = ''old''
     \<and> schemas_added (calls_of_run (demo_globals\<lparr>runtime_ServiceID := ''old''\<rparr>)
          (snd (RegisterMicroservice (demo_env\<lparr>reg_RegisterService := \<lambda>d. Inr []\<rparr>)
             (demo_globals\<lparr>runtime_ServiceID := ''old''\<rparr>)))) = []"
proof -
  let ?e = "demo_env\<lparr>reg_RegisterService := \<lambda>d. Inr []\<rparr>"
  let ?g = "demo_globals\<lparr>runtime_ServiceID := ''old''\<rparr>"
  let ?subs = "services_submitted (calls_of_run ?g (snd (RegisterMicroservice ?e ?g)))"
  obtain d where one: "?subs = [d]"
    by (simp add: RegisterMicroservice_def run_simps case_prod_beta demo_defs)
  have empty: "reg_RegisterService ?e d = Inr []"
    by (simp add: demo_defs)
  have old: "runtime_ServiceID ?g = ''old''"
    by (simp add: demo_defs)
  from empty_service_id [OF one empty] one empty old show ?thesis
    by auto
qed

text \<open>
  C8. When \<^verbatim>\<open>schema.GetSchemaIDs\<close> fails, the run goes on with the empty schema list: the
  submitted descriptor carries no schema, no \<^verbatim>\<open>AddSchemas\<close> call is made, and the run
  is the very run that a successful discovery of an empty list gives, so its result is
  decided by the Registrator's answer alone.
\<close>

theorem schema_discovery_failure:
  assumes "GetSchemaIDs e (sd_Name (config_ServiceDescription g)) = Inl err"
  shows "map ms_Schemas (services_submitted (calls_of_run g (snd (RegisterMicroservice e g)))) = [Nil]
       \<and> schemas_added (calls_of_run g (snd (RegisterMicroservice e g))) = []
       \<and> RegisterMicroservice e g = RegisterMicroservice (e\<lparr>GetSchemaIDs := \<lambda>name. Inr []\<rparr>) g"
  using assms
  by (simp add: RegisterMicroservice_def run_simps descriptor_simps case_prod_beta
      split: sum.splits)

text \<open>With a Registrator that answers "sid-1" the run without schemas returns nil.\<close>

theorem schema_discovery_failure_witness:
  "GetSchemaIDs (demo_env\<lparr>GetSchemaIDs := \<lambda>name. Inl ''no schemas''\<rparr>)
       (sd_Name (config_ServiceDescription demo_globals)) = Inl ''no schemas''
   \<and> map ms_Schemas (services_submitted (calls_of_run demo_globals
        (snd (RegisterMicroservice (demo_env\<lparr>GetSchemaIDs := \<lambda>name. Inl ''no schemas''\<rparr>)
           demo_globals)))) = [Nil]
   \<and> schemas_added (calls_of_run demo_globals
        (snd (RegisterMicroservice (demo_env\<lparr>GetSchemaIDs := \<lambda>name. Inl ''no schemas''\<rparr>)
           demo_globals))) = []
   \<and> fst (RegisterMicroservice (demo_env\<lparr>GetSchemaIDs := \<lambda>name. Inl ''no schemas''\<rparr>)
        demo_globals) = None"
proof -
  let ?e = "demo_env\<lparr>GetSchemaIDs := \<lambda>name. Inl ''no schemas''\<rparr>"
  have fails: "GetSchemaIDs ?e (sd_Name (config_ServiceDescription demo_globals)) = Inl ''no schemas''"
    by simp
  have nil: "fst (RegisterMicroservice ?e demo_globals) = None"
    by (simp add: RegisterMicroservice_def Let_def case_prod_beta demo_defs)
  from schema_discovery_failure [OF fails] fails nil show ?thesis
    by blast
qed

section \<open>Instance registration\<close>

text \<open>
  C6. When an endpoint override has been supplied (\<^verbatim>\<open>InstanceEndpoints\<close> is not nil), every
  instance descriptor the run submits carries exactly the override as its endpoints map,
  whatever the configured protocols and whatever \<^verbatim>\<open>MakeEndpointMap\<close> computed from
  them.
\<close>

theorem endpoint_override_wins:
  assumes "InstanceEndpoints g = Some override"
  shows "\<forall>d \<in> set (instances_submitted (calls_of_run g (snd (RegisterMicroserviceInstances e g)))).
           msi_EndpointsMap d = Some override"
  using assms by (auto simp add: instances_submitted_run instance_simps split: sum.splits)

text \<open>
  An override for "rest" against a computed map for "rest": one descriptor is submitted and
  it carries the override.
\<close>

theorem endpoint_override_wins_witness:
  "InstanceEndpoints (demo_globals\<lparr>InstanceEndpoints := Some [''rest'' \<mapsto> ''10.1.1.1:80'']\<rparr>)
     = Some [''rest'' \<mapsto> ''10.1.1.1:80'']
   \<and> map msi_EndpointsMap (instances_submitted
        (calls_of_run (demo_globals\<lparr>InstanceEndpoints := Some [''rest'' \<mapsto> ''10.1.1.1:80'']\<rparr>)
          (snd (RegisterMicroserviceInstances demo_env
             (demo_globals\<lparr>InstanceEndpoints := Some [''rest'' \<mapsto> ''10.1.1.1:80'']\<rparr>)))))
     = [Some [''rest'' \<mapsto> ''10.1.1.1:80'']]"
proof -
  let ?g = "demo_globals\<lparr>InstanceEndpoints := Some [''rest'' \<mapsto> ''10.1.1.1:80'']\<rparr>"
  let ?subs = "instances_submitted (calls_of_run ?g (snd (RegisterMicroserviceInstances demo_env ?g)))"
  have override: "InstanceEndpoints ?g = Some [''rest'' \<mapsto> ''10.1.1.1:80'']"
    by simp
  obtain d where one: "?subs = [d]"
    by (simp add: instances_submitted_run demo_defs)
  have "\<forall>d \<in> set ?subs. msi_EndpointsMap d = Some [''rest'' \<mapsto> ''10.1.1.1:80'']"
    using override by (rule endpoint_override_wins)
  then have "map msi_EndpointsMap ?subs = [Some [''rest'' \<mapsto> ''10.1.1.1:80'']]"
    unfolding one by simp
  with override show ?thesis by blast
qed

text \<open>
  C7. Every instance descriptor the run submits has a \<^verbatim>\<open>DataCenterInfo\<close> if and only if
  the configured data-center name and availability zone are both non-empty.
\<close>

theorem datacenter_attached_iff:
  "\<forall>d \<in> set (instances_submitted (calls_of_run g (snd (RegisterMicroserviceInstances e g)))).
     (msi_DataCenterInfo d \<noteq> None) =
     (dc_Name (config_DataCenter g) \<noteq> [] \<and> dc_AvailableZone (config_DataCenter g) \<noteq> [])"
  by (auto simp add: instances_submitted_run instance_simps split: sum.splits)

text \<open>
  With name "dc1" and zone "az1" the submitted descriptor has the record; with the zone
  empty it has none.
\<close>

theorem datacenter_attached_iff_witness:
  "map (\<lambda>d. msi_DataCenterInfo d \<noteq> None) (instances_submitted
      (calls_of_run demo_globals (snd (RegisterMicroserviceInstances demo_env demo_globals))))
     = [True]
   \<and> map (\<lambda>d. msi_DataCenterInfo d \<noteq> None) (instances_submitted
      (calls_of_run (demo_globals\<lparr>config_DataCenter := \<lparr>dc_Name = ''dc1'', dc_AvailableZone = []\<rparr>\<rparr>)
        (snd (RegisterMicroserviceInstances demo_env
           (demo_globals\<lparr>config_DataCenter := \<lparr>dc_Name = ''dc1'', dc_AvailableZone = []\<rparr>\<rparr>)))))
     = [False]"
proof -
  let ?g = "demo_globals\<lparr>config_DataCenter := \<lparr>dc_Name = ''dc1'', dc_AvailableZone = []\<rparr>\<rparr>"
  let ?subs = "\<lambda>g. instances_submitted (calls_of_run g (snd (RegisterMicroserviceInstances demo_env g)))"
  obtain d where one: "?subs demo_globals = [d]"
    by (simp add: instances_submitted_run demo_defs)
  obtain d' where one': "?subs ?g = [d']"
    by (simp add: instances_submitted_run demo_defs)
  have both: "dc_Name (config_DataCenter demo_globals) \<noteq> []
      \<and> dc_AvailableZone (config_DataCenter demo_globals) \<noteq> []"
    by (simp add: demo_defs)
  have zone: "dc_AvailableZone (config_DataCenter ?g) = []"
    by simp
  have "msi_DataCenterInfo d \<noteq> None"
    using datacenter_attached_iff [of demo_globals demo_env] both unfolding one by simp
  moreover have "\<not> msi_DataCenterInfo d' \<noteq> None"
    using datacenter_attached_iff [of ?g demo_env] zone unfolding one' by simp
  ultimately show ?thesis
    unfolding one one' by simp
qed

text \<open>
  C10. Whenever a submitted instance descriptor has a \<^verbatim>\<open>DataCenterInfo\<close>, its region
  equals its name, both are the configured data-center name, and its zone is the
  configured availability zone.
\<close>

theorem datacenter_region_is_name:
  "\<forall>d \<in> set (instances_submitted (calls_of_run g (snd (RegisterMicroserviceInstances e g)))).
     \<forall>dci. msi_DataCenterInfo d = Some dci \<longrightarrow>
       dci_Region dci = dci_Name dci
       \<and> dci_Region dci = dc_Name (config_DataCenter g)
       \<and> dci_AvailableZone dci = dc_AvailableZone (config_DataCenter g)"
  by (auto simp add: instances_submitted_run instance_simps split: sum.splits if_splits)

theorem datacenter_region_is_name_witness:
  "\<exists>d dci. instances_submitted
        (calls_of_run demo_globals (snd (RegisterMicroserviceInstances demo_env demo_globals))) = [d]
     \<and> msi_DataCenterInfo d = Some dci
     \<and> dci_Name dci = ''dc1'' \<and> dci_Region dci = ''dc1'' \<and> dci_AvailableZone dci = ''az1''"
proof -
  let ?subs = "instances_submitted
        (calls_of_run demo_globals (snd (RegisterMicroserviceInstances demo_env demo_globals)))"
  obtain d where one: "?subs = [d]"
    by (simp add: instances_submitted_run demo_defs)
  have d: "d = new_microServiceInstance demo_globals (Some [''rest'' \<mapsto> ''127.0.0.1:8080''])"
    using one by (simp add: instances_submitted_run demo_defs)
  have "msi_DataCenterInfo d \<noteq> None"
    unfolding d by (simp add: instance_simps demo_defs)
  then obtain dci where dci: "msi_DataCenterInfo d = Some dci"
    by blast
  have cfg: "dc_Name (config_DataCenter demo_globals) = ''dc1''
      \<and> dc_AvailableZone (config_DataCenter demo_globals) = ''az1''"
    by (simp add: demo_defs)
  have "dci_Name dci = ''dc1'' \<and> dci_Region dci = ''dc1'' \<and> dci_AvailableZone dci = ''az1''"
    using datacenter_region_is_name [of demo_globals demo_env] dci cfg unfolding one by auto
  with one dci show ?thesis by blast
qed

text \<open>
  C9. Instance properties are configured, discovery resolves \<open>sid\<close>, the endpoints are
  computed, the Registrator answers the submitted descriptor with \<open>i\<close>, and the property
  update fails with \<open>err\<close>. Then the run returns that error, the self-instance cache is what
  it was, and the runtime instance ID and status are already \<open>i\<close> and
  \<^verbatim>\<open>runtime.StatusRunning\<close>.
\<close>

theorem property_update_failure:
  assumes "sd_InstanceProperties (config_ServiceDescription g) = Some props"
    and "GetMicroServiceID e (runtime_App g) (sd_Name (config_ServiceDescription g))
           (sd_Version (config_ServiceDescription g))
           (sd_Environment (config_ServiceDescription g)) = Inr sid"
    and "MakeEndpointMap e (config_Protocols g) = Inr eps0"
    and "\<forall>d \<in> set (instances_submitted (calls_of_run g (snd (RegisterMicroserviceInstances e g)))).
           reg_RegisterServiceInstance e sid d = Inr i"
    and "reg_UpdateMicroServiceInstanceProperties e sid i props = Some err"
  shows "fst (RegisterMicroserviceInstances e g) = Some (Propagated err)
       \<and> SelfInstancesCache (snd (RegisterMicroserviceInstances e g)) = SelfInstancesCache g
       \<and> runtime_InstanceID (snd (RegisterMicroserviceInstances e g)) = i
       \<and> runtime_InstanceStatus (snd (RegisterMicroserviceInstances e g)) = runtime_StatusRunning g"
proof -
  let ?d = "new_microServiceInstance g
              (if InstanceEndpoints g \<noteq> None then InstanceEndpoints g else eps0)"
  have "reg_RegisterServiceInstance e sid ?d = Inr i"
    using assms(2,3,4) by (simp add: instances_submitted_run)
  then show ?thesis
    using assms(1,2,3,5)
    by (simp add: RegisterMicroserviceInstances_def Let_def instance_simps case_prod_beta
        split: prod.splits option.splits)
qed

theorem property_update_failure_witness:
  "fst (RegisterMicroserviceInstances demo_env_update_fails demo_globals_with_properties)
     = Some (Propagated ''update failed'')
   \<and> SelfInstancesCache
       (snd (RegisterMicroserviceInstances demo_env_update_fails demo_globals_with_properties))
     = Map.empty
   \<and> runtime_InstanceID
       (snd (RegisterMicroserviceInstances demo_env_update_fails demo_globals_with_properties))
     = ''inst-1''
   \<and> runtime_InstanceStatus
       (snd (RegisterMicroserviceInstances demo_env_update_fails demo_globals_with_properties))
     = ''UP''"
proof -
  let ?g = demo_globals_with_properties
  let ?e = demo_env_update_fails
  have props: "sd_InstanceProperties (config_ServiceDescription ?g) = Some [''zone'' \<mapsto> ''a'']"
    by (simp add: demo_globals_with_properties_def)
  have sid: "GetMicroServiceID ?e (runtime_App ?g) (sd_Name (config_ServiceDescription ?g))
        (sd_Version (config_ServiceDescription ?g))
        (sd_Environment (config_ServiceDescription ?g)) = Inr ''sid-1''"
    by (simp add: demo_env_update_fails_def demo_defs)
  have eps: "MakeEndpointMap ?e (config_Protocols ?g) = Inr (Some [''rest'' \<mapsto> ''127.0.0.1:8080''])"
    by (simp add: demo_env_update_fails_def demo_defs)
  have iid: "\<forall>d \<in> set ds. reg_RegisterServiceInstance ?e ''sid-1'' d = Inr ''inst-1''" for ds
    by (simp add: demo_env_update_fails_def demo_defs)
  have upd: "reg_UpdateMicroServiceInstanceProperties ?e ''sid-1'' ''inst-1'' [''zone'' \<mapsto> ''a'']
      = Some ''update failed''"
    by (simp add: demo_env_update_fails_def)
  have before: "SelfInstancesCache ?g = Map.empty \<and> runtime_StatusRunning ?g = ''UP''"
    by (simp add: demo_globals_with_properties_def demo_defs)
  from property_update_failure [OF props sid eps iid upd] before show ?thesis
    by simp
qed

text \<open>
  C2. Start from a cache none of whose lists has a duplicate (the empty cache is one). Run
  \<^verbatim>\<open>RegisterMicroserviceInstances\<close> twice, both runs returning nil, discovery resolving
  \<open>sid\<close> both times and the Registrator answering the submitted descriptor with \<open>i\<close>
  both times. Then the cache entry for \<open>sid\<close> is a list with exactly one occurrence of
  \<open>i\<close>, and it is the entry the first run left.
\<close>

theorem repeated_registration:
  assumes inv: "\<And>k ids. SelfInstancesCache g k = Some (StringSlice ids) \<Longrightarrow> distinct ids"
    and sid1: "GetMicroServiceID e1 (runtime_App g) (sd_Name (config_ServiceDescription g))
           (sd_Version (config_ServiceDescription g))
           (sd_Environment (config_ServiceDescription g)) = Inr sid"
    and run1: "RegisterMicroserviceInstances e1 g = (None, g1)"
    and iid1: "\<forall>d \<in> set (instances_submitted (calls_of_run g g1)).
           reg_RegisterServiceInstance e1 sid d = Inr i"
    and sid2: "GetMicroServiceID e2 (runtime_App g1) (sd_Name (config_ServiceDescription g1))
           (sd_Version (config_ServiceDescription g1))
           (sd_Environment (config_ServiceDescription g1)) = Inr sid"
    and run2: "RegisterMicroserviceInstances e2 g1 = (None, g2)"
    and iid2: "\<forall>d \<in> set (instances_submitted (calls_of_run g1 g2)).
           reg_RegisterServiceInstance e2 sid d = Inr i"
  shows "SelfInstancesCache g2 sid = Some (StringSlice (self_instances (SelfInstancesCache g2) sid))
       \<and> count_list (self_instances (SelfInstancesCache g2) sid) i = 1
       \<and> SelfInstancesCache g2 sid = SelfInstancesCache g1 sid"
proof -
  have c1: "SelfInstancesCache g1 = update_self_instances [] sid i (SelfInstancesCache g)"
    using run1 sid1 iid1 by (rule run_success_cache)
  have c2: "SelfInstancesCache g2 = update_self_instances [] sid i (SelfInstancesCache g1)"
    using run2 sid2 iid2 by (rule run_success_cache)
  have inv1: "distinct (self_instances (SelfInstancesCache g1) [])"
    unfolding c1
    by (rule self_instances_distinct) (rule update_self_instances_distinct [OF inv])
  have "SelfInstancesCache g2 sid = Some (StringSlice (self_instances (SelfInstancesCache g2) sid))"
    unfolding c2 by (simp add: update_self_instances_eq self_instances_def)
  moreover have "count_list (self_instances (SelfInstancesCache g2) sid) i = 1"
    unfolding c2 using inv1 by (rule update_self_instances_count)
  moreover have "SelfInstancesCache g2 sid = SelfInstancesCache g1 sid"
    unfolding c2 c1 by (rule update_self_instances_twice)
  ultimately show ?thesis by simp
qed

text \<open>
  The example of the spec: discovery resolves "sid-1" and the Registrator answers "inst-1"
  twice in a row, from the empty cache.
\<close>

theorem repeated_registration_witness:
  "SelfInstancesCache (snd (RegisterMicroserviceInstances demo_env
       (snd (RegisterMicroserviceInstances demo_env demo_globals)))) ''sid-1''
     = Some (StringSlice [''inst-1''])"
proof -
  let ?g1 = "snd (RegisterMicroserviceInstances demo_env demo_globals)"
  let ?g2 = "snd (RegisterMicroserviceInstances demo_env ?g1)"
  have inv: "\<And>k ids. SelfInstancesCache demo_globals k = Some (StringSlice ids) \<Longrightarrow> distinct ids"
    by (simp add: demo_defs)
  have sid1: "GetMicroServiceID demo_env (runtime_App demo_globals)
        (sd_Name (config_ServiceDescription demo_globals))
        (sd_Version (config_ServiceDescription demo_globals))
        (sd_Environment (config_ServiceDescription demo_globals)) = Inr ''sid-1''"
    by (simp add: demo_defs)
  have sid2: "GetMicroServiceID demo_env (runtime_App ?g1)
        (sd_Name (config_ServiceDescription ?g1))
        (sd_Version (config_ServiceDescription ?g1))
        (sd_Environment (config_ServiceDescription ?g1)) = Inr ''sid-1''"
    by (simp add: demo_defs)
  have ok: "fst (RegisterMicroserviceInstances demo_env g) = None" for g :: "string list globals"
    by (simp add: RegisterMicroserviceInstances_def Let_def case_prod_beta instance_simps
        demo_defs split: option.splits)
  have run1: "RegisterMicroserviceInstances demo_env demo_globals = (None, ?g1)"
    using ok [of demo_globals] by (simp add: prod_eq_iff)
  have run2: "RegisterMicroserviceInstances demo_env ?g1 = (None, ?g2)"
    using ok [of ?g1] by (simp add: prod_eq_iff)
  have iid: "\<forall>d \<in> set ds. reg_RegisterServiceInstance demo_env ''sid-1'' d = Inr ''inst-1''" for ds
    by (simp add: demo_defs)
  note r = repeated_registration [OF inv sid1 run1 iid sid2 run2 iid]
  have "self_instances (SelfInstancesCache ?g2) ''sid-1'' = [''inst-1'']"
    by (simp add: RegisterMicroserviceInstances_def Let_def case_prod_beta
        push_instance_properties_def new_microServiceInstance_def
        update_self_instances_eq self_instances_def demo_defs)
  with r show ?thesis by simp
qed

text \<open>
  C1 fails on the code. The list is read under \<^verbatim>\<open>microServiceInstance.ServiceID\<close>, which
  is never assigned and so is the empty string, and not under the resolved service ID.
  From the empty cache, a first run with instance ID "inst-1" leaves the list "inst-1"
  under "sid-1"; a second run with instance ID "inst-2" does not append to that list but
  replaces it by the list "inst-2".
\<close>

theorem cache_read_under_descriptor_key:
  "SelfInstancesCache (snd (RegisterMicroserviceInstances demo_env demo_globals)) ''sid-1''
     = Some (StringSlice [''inst-1''])
   \<and> SelfInstancesCache
       (snd (RegisterMicroserviceInstances
              demo_env_second_id
              (snd (RegisterMicroserviceInstances demo_env demo_globals)))) ''sid-1''
     = Some (StringSlice [''inst-2''])"
  by (simp add: RegisterMicroserviceInstances_def Let_def case_prod_beta
      push_instance_properties_def new_microServiceInstance_def
      update_self_instances_eq self_instances_def demo_defs)

end
